theory Spec2Isabelle
  imports Main
begin

section \<open>Timestamps as SQLite and JavaScript render them\<close>

text \<open>
  The database keeps every timestamp as TEXT. Two renderings occur in the source:
  \<^item> SQLite's \<^verbatim>\<open>CURRENT_TIMESTAMP\<close> and \<^verbatim>\<open>DATETIME(...)\<close> produce
    \<^verbatim>\<open>YYYY-MM-DD HH:MM:SS\<close> (UTC, whole seconds);
  \<^item> JavaScript's \<^verbatim>\<open>new Date().toISOString()\<close> produces
    \<^verbatim>\<open>YYYY-MM-DDTHH:MM:SS.sssZ\<close> (UTC, milliseconds).
  Both start with the zero-padded calendar date, so on that prefix the bytewise order of
  the text is the order of the dates; the same holds for the zero-padded time of day and
  for the millisecond digits. A timestamp text is therefore kept as its date (a day
  number), the separator character that follows the date, the time of day in seconds, and
  the milliseconds when the rendering has them.
\<close>

record clock =
  cdate :: int
  ctod :: nat
  cms :: nat

record timetext =
  t_date :: int
  t_sep :: char
  t_tod :: nat
  t_frac :: "nat option"

definition CURRENT_TIMESTAMP :: "clock \<Rightarrow> timetext" where
  "CURRENT_TIMESTAMP now =
     \<lparr>t_date = cdate now, t_sep = CHR '' '', t_tod = ctod now, t_frac = None\<rparr>"

definition toISOString :: "clock \<Rightarrow> timetext" where
  "toISOString now =
     \<lparr>t_date = cdate now, t_sep = CHR ''T'', t_tod = ctod now, t_frac = Some (cms now)\<rparr>"

text \<open>
  \<^verbatim>\<open>DATETIME(x, '+n days')\<close> parses either rendering, moves the date by \<open>n\<close> days and
  prints the SQLite rendering, dropping the fraction of a second.
\<close>

definition DATETIME :: "timetext \<Rightarrow> int \<Rightarrow> timetext" where
  "DATETIME x n =
     \<lparr>t_date = t_date x + n, t_sep = CHR '' '', t_tod = t_tod x, t_frac = None\<rparr>"

text \<open>
  The timestamp columns are declared \<^verbatim>\<open>DATETIME\<close>, which gives them NUMERIC
  affinity; neither rendering reads as a number, so the values stay TEXT, in the table and
  in a comparison. The SQL operator \<^verbatim>\<open><\<close> on two TEXT values compares them bytewise. After equal
  dates the separators are compared (a space is byte 32, \<^verbatim>\<open>T\<close> is byte 84), then the
  times of day, then the fractions, a text without fraction being a proper prefix of one
  with a fraction.
\<close>

fun frac_less :: "nat option \<Rightarrow> nat option \<Rightarrow> bool" where
  "frac_less None None = False"
| "frac_less None (Some n) = True"
| "frac_less (Some m) None = False"
| "frac_less (Some m) (Some n) = (m < n)"

definition text_less :: "timetext \<Rightarrow> timetext \<Rightarrow> bool" where
  "text_less a b =
     (t_date a < t_date b \<or>
      (t_date a = t_date b \<and>
       ((of_char (t_sep a) :: nat) < of_char (t_sep b) \<or>
        (t_sep a = t_sep b \<and>
         (t_tod a < t_tod b \<or>
          (t_tod a = t_tod b \<and> frac_less (t_frac a) (t_frac b)))))))"

text \<open>
  The order of the instants themselves, whatever the rendering: date, then time of day,
  then milliseconds (none counting as zero). The specification speaks of this order.
\<close>

definition millis :: "timetext \<Rightarrow> nat" where
  "millis a = (case t_frac a of None \<Rightarrow> 0 | Some m \<Rightarrow> m)"

definition earlier :: "timetext \<Rightarrow> timetext \<Rightarrow> bool" where
  "earlier a b =
     (t_date a < t_date b \<or>
      (t_date a = t_date b \<and>
       (t_tod a < t_tod b \<or> (t_tod a = t_tod b \<and> millis a < millis b))))"

section \<open>The database (database.js)\<close>

record user_row =
  username :: string
  password :: string
  is_admin :: bool

record session_row =
  auth_token :: string
  session_username :: string
  last_active :: timetext

record invite_row =
  invite_code :: string
  expiration :: timetext

record log_row =
  message :: string
  timestamp :: timetext

record database =
  users :: "user_row list"
  sessions :: "session_row list"
  invites :: "invite_row list"
  logs :: "log_row list"

text \<open>
  The module variable \<^verbatim>\<open>db\<close> is unset until \<^verbatim>\<open>open_database\<close> succeeds; every
  wrapper tests \<^verbatim>\<open>db != null\<close>. Each table is the list of its rows in insertion order.
\<close>

type_synonym state = "database option"

datatype error = TypeError | SqliteError

type_synonym 'a outcome = "(error + 'a) \<times> state"

text \<open>
  The SQL statements of the source with their parameters. The schema of
  \<^verbatim>\<open>create_tables\<close> decides what each one does: \<^verbatim>\<open>username\<close> is the primary key of
  \<^verbatim>\<open>users\<close>; \<^verbatim>\<open>sessions.username\<close> references it with \<^verbatim>\<open>ON DELETE CASCADE\<close> (the
  driver, better-sqlite3, enforces foreign keys by default); \<^verbatim>\<open>last_active\<close> and
  \<^verbatim>\<open>timestamp\<close> default to \<^verbatim>\<open>CURRENT_TIMESTAMP\<close>, \<^verbatim>\<open>expiration\<close> to
  \<^verbatim>\<open>DATETIME(CURRENT_TIMESTAMP, '+7 days')\<close>, \<^verbatim>\<open>is_admin\<close> to 0.
\<close>

datatype statement =
    INSERT_users string string bool
  | DELETE_users string
  | INSERT_sessions string string
  | UPDATE_sessions string
  | DELETE_sessions string
  | INSERT_invites string
  | DELETE_invites string
  | INSERT_logs string
  | DELETE_invites_expired timetext
  | DELETE_sessions_stale timetext
  | DELETE_logs_stale timetext

definition touch :: "clock \<Rightarrow> string \<Rightarrow> session_row \<Rightarrow> session_row" where
  "touch now t s = (if auth_token s = t then s\<lparr>last_active := CURRENT_TIMESTAMP now\<rparr> else s)"

fun run :: "statement \<Rightarrow> clock \<Rightarrow> database \<Rightarrow> error + database" where
  "run (INSERT_users u p a) now d =
     (if u \<in> set (map username (users d)) then Inl SqliteError
      else Inr (d\<lparr>users := users d @ [\<lparr>username = u, password = p, is_admin = a\<rparr>]\<rparr>))"
| "run (DELETE_users u) now d =
     Inr (d\<lparr>users := filter (\<lambda>r. username r \<noteq> u) (users d),
            sessions := filter (\<lambda>s. session_username s \<noteq> u) (sessions d)\<rparr>)"
| "run (INSERT_sessions u t) now d =
     (if u \<in> set (map username (users d))
      then Inr (d\<lparr>sessions := sessions d @
                 [\<lparr>auth_token = t, session_username = u, last_active = CURRENT_TIMESTAMP now\<rparr>]\<rparr>)
      else Inl SqliteError)"
| "run (UPDATE_sessions t) now d = Inr (d\<lparr>sessions := map (touch now t) (sessions d)\<rparr>)"
| "run (DELETE_sessions t) now d =
     Inr (d\<lparr>sessions := filter (\<lambda>s. auth_token s \<noteq> t) (sessions d)\<rparr>)"
| "run (INSERT_invites c) now d =
     Inr (d\<lparr>invites := invites d @
            [\<lparr>invite_code = c, expiration = DATETIME (CURRENT_TIMESTAMP now) 7\<rparr>]\<rparr>)"
| "run (DELETE_invites c) now d =
     Inr (d\<lparr>invites := filter (\<lambda>i. invite_code i \<noteq> c) (invites d)\<rparr>)"
| "run (INSERT_logs m) now d =
     Inr (d\<lparr>logs := logs d @ [\<lparr>message = m, timestamp = CURRENT_TIMESTAMP now\<rparr>]\<rparr>)"
| "run (DELETE_invites_expired x) now d =
     Inr (d\<lparr>invites := filter (\<lambda>i. \<not> text_less (expiration i) x) (invites d)\<rparr>)"
| "run (DELETE_sessions_stale x) now d =
     Inr (d\<lparr>sessions :=
            filter (\<lambda>s. \<not> text_less (last_active s) (DATETIME x (- 30))) (sessions d)\<rparr>)"
| "run (DELETE_logs_stale x) now d =
     Inr (d\<lparr>logs := filter (\<lambda>l. \<not> text_less (timestamp l) (DATETIME x (- 30))) (logs d)\<rparr>)"

text \<open>
  Every function that reaches the clock takes its reading \<open>now\<close> as an argument, one
  reading for the whole call.

  \<^verbatim>\<open>execute\<close> does nothing without a database. A statement that fails throws and
  leaves the tables as they were; what earlier statements wrote stays written, since the
  source opens no transaction.
\<close>

definition execute :: "statement \<Rightarrow> clock \<Rightarrow> state \<Rightarrow> unit outcome" where
  "execute q now st =
     (case st of
        None \<Rightarrow> (Inr (), None)
      | Some d \<Rightarrow> (case run q now d of
                     Inl e \<Rightarrow> (Inl e, Some d)
                   | Inr d' \<Rightarrow> (Inr (), Some d')))"

text \<open>
  \<^verbatim>\<open>get_row\<close> returns the first matching row, \<^verbatim>\<open>null\<close> when there is none and
  \<^verbatim>\<open>undefined\<close> without a database; the callers treat the two alike (\<^verbatim>\<open>!= null\<close>,
  truthiness, property access), so both are \<open>None\<close>. One function per table queried.
\<close>

definition get_row_users :: "string \<Rightarrow> state \<Rightarrow> user_row option" where
  "get_row_users u st =
     (case st of None \<Rightarrow> None | Some d \<Rightarrow> find (\<lambda>r. username r = u) (users d))"

definition get_row_sessions :: "string \<Rightarrow> state \<Rightarrow> session_row option" where
  "get_row_sessions t st =
     (case st of None \<Rightarrow> None | Some d \<Rightarrow> find (\<lambda>s. auth_token s = t) (sessions d))"

definition get_row_invites :: "string \<Rightarrow> state \<Rightarrow> invite_row option" where
  "get_row_invites c st =
     (case st of None \<Rightarrow> None | Some d \<Rightarrow> find (\<lambda>i. invite_code i = c) (invites d))"

text \<open>Sequencing of two steps: an exception of the first skips the second.\<close>

definition and_then :: "'a outcome \<Rightarrow> ('a \<Rightarrow> state \<Rightarrow> 'b outcome) \<Rightarrow> 'b outcome" where
  "and_then r f = (case r of (Inl e, st) \<Rightarrow> (Inl e, st) | (Inr x, st) \<Rightarrow> f x st)"

text \<open>The message is \<open>None\<close> when the argument is \<^verbatim>\<open>null\<close> or \<^verbatim>\<open>undefined\<close>.\<close>

definition log :: "string option \<Rightarrow> clock \<Rightarrow> state \<Rightarrow> unit outcome" where
  "log m now st =
     (case m of None \<Rightarrow> (Inr (), st) | Some s \<Rightarrow> execute (INSERT_logs s) now st)"

definition clean_database :: "clock \<Rightarrow> state \<Rightarrow> unit outcome" where
  "clean_database now st =
     (let current_time = toISOString now in
      and_then (execute (DELETE_invites_expired current_time) now st) (\<lambda>_ st1.
      and_then (execute (DELETE_sessions_stale current_time) now st1) (\<lambda>_ st2.
      execute (DELETE_logs_stale current_time) now st2)))"

definition create_tables :: database where
  "create_tables = \<lparr>users = [], sessions = [], invites = [], logs = []\<rparr>"

definition create_admin_account :: "clock \<Rightarrow> state \<Rightarrow> unit outcome" where
  "create_admin_account now st =
     execute (INSERT_users ''admin'' ''DEFAULT PASSWORD HASH'' True) now st"

text \<open>
  \<^verbatim>\<open>open_database\<close>: \<open>can_open\<close> says whether the driver can open the file, \<open>disk\<close> is
  the content of the file when it already exists.
\<close>

definition open_database :: "bool \<Rightarrow> database option \<Rightarrow> clock \<Rightarrow> bool \<times> state" where
  "open_database can_open disk now =
     (if \<not> can_open then (False, None)
      else (case disk of
              Some d \<Rightarrow> (True, Some d)
            | None \<Rightarrow> (case create_admin_account now (Some create_tables) of
                         (Inl e, st) \<Rightarrow> (False, st)
                       | (Inr u, st) \<Rightarrow> (True, st))))"

section \<open>Authentication (auth.js)\<close>

definition quoted :: "string \<Rightarrow> string" where
  "quoted s = [CHR 0x27] @ s @ [CHR 0x27]"

definition check_username :: "string \<Rightarrow> state \<Rightarrow> bool" where
  "check_username u st = (get_row_users u st \<noteq> None)"

text \<open>
  \<open>compareSync\<close> and \<open>hashSync\<close> are bcrypt's, taken as parameters. Reading a property
  of \<^verbatim>\<open>null\<close> or \<^verbatim>\<open>undefined\<close> throws a TypeError.
\<close>

definition check_password ::
  "(string \<Rightarrow> string \<Rightarrow> bool) \<Rightarrow> string \<Rightarrow> string \<Rightarrow> state \<Rightarrow> error + bool" where
  "check_password compareSync u p st =
     (case get_row_users u st of
        None \<Rightarrow> Inl TypeError
      | Some user_info \<Rightarrow>
          (if \<not> compareSync p (password user_info) then Inr False else Inr True))"

definition get_username :: "string \<Rightarrow> state \<Rightarrow> error + string" where
  "get_username t st =
     (case get_row_sessions t st of
        None \<Rightarrow> Inl TypeError
      | Some r \<Rightarrow> Inr (session_username r))"

definition check_admin :: "string \<Rightarrow> state \<Rightarrow> error + bool" where
  "check_admin u st =
     (case get_row_users u st of
        None \<Rightarrow> Inl TypeError
      | Some r \<Rightarrow> Inr (is_admin r))"

definition check_invite_code :: "string \<Rightarrow> state \<Rightarrow> bool" where
  "check_invite_code c st = (get_row_invites c st \<noteq> None)"

definition create_user ::
  "(string \<Rightarrow> string) \<Rightarrow> clock \<Rightarrow> string \<Rightarrow> string \<Rightarrow> string \<Rightarrow> state \<Rightarrow> unit outcome" where
  "create_user hashSync now u p c st =
     (let password_hash = hashSync p in
      and_then (execute (DELETE_invites c) now st) (\<lambda>_ st1.
      and_then (execute (INSERT_users u password_hash False) now st1) (\<lambda>_ st2.
      log (Some (''Created new user '' @ quoted u @ '', used invite code '' @ quoted c @ ''.''))
        now st2)))"

definition delete_user :: "clock \<Rightarrow> string \<Rightarrow> state \<Rightarrow> unit outcome" where
  "delete_user now u st =
     and_then (execute (DELETE_users u) now st) (\<lambda>_ st1.
     log (Some (''Deleted user '' @ quoted u @ ''.'')) now st1)"

text \<open>
  The random draws (\<^verbatim>\<open>randomBytes(32)\<close> for a session token, \<^verbatim>\<open>randomBytes(3)\<close> for
  an invite code, in hexadecimal) are arguments of the model.
\<close>

definition create_session :: "clock \<Rightarrow> string \<Rightarrow> string \<Rightarrow> state \<Rightarrow> string outcome" where
  "create_session now t u st =
     and_then (execute (INSERT_sessions u t) now st) (\<lambda>_ st1.
     and_then (log (Some (''Created new session for '' @ quoted u @ ''.'')) now st1) (\<lambda>_ st2.
     (Inr t, st2)))"

definition check_session :: "clock \<Rightarrow> string \<Rightarrow> state \<Rightarrow> string option outcome" where
  "check_session now t st =
     (case get_row_sessions t st of
        Some session_info \<Rightarrow>
          and_then (execute (UPDATE_sessions t) now st) (\<lambda>_ st1.
          (Inr (Some (session_username session_info)), st1))
      | None \<Rightarrow> (Inr None, st))"

definition delete_session :: "clock \<Rightarrow> string \<Rightarrow> state \<Rightarrow> unit outcome" where
  "delete_session now t st =
     (case get_username t st of
        Inl e \<Rightarrow> (Inl e, st)
      | Inr u \<Rightarrow>
          and_then (execute (DELETE_sessions t) now st) (\<lambda>_ st1.
          log (Some (''Deleted session for '' @ quoted u @ ''.'')) now st1))"

definition create_invite_code :: "clock \<Rightarrow> string \<Rightarrow> state \<Rightarrow> string outcome" where
  "create_invite_code now c st =
     and_then (execute (INSERT_invites c) now st) (\<lambda>_ st1.
     and_then (log (Some (''Created new invite code '' @ quoted c @ ''.'')) now st1) (\<lambda>_ st2.
     (Inr c, st2)))"

section \<open>Input validation (validation.js) and the sign-up route (api.js)\<close>

definition is_alphanumeric :: "string \<Rightarrow> bool" where
  "is_alphanumeric s =
     (s \<noteq> [] \<and>
      list_all (\<lambda>ch. ch \<in> set ''abcdefghijklmnopqrstuvwxyzABCDEFGHIJKLMNOPQRSTUVWXYZ0123456789'') s)"

definition is_between_lengths :: "string \<Rightarrow> nat \<Rightarrow> nat \<Rightarrow> bool" where
  "is_between_lengths s mn mx = (length s \<ge> mn \<and> length s \<le> mx)"

record signup_body =
  body_username :: "string option"
  body_password :: "string option"
  body_invite_code :: "string option"

datatype response = Response nat string "(string \<times> string) list"

definition invalid_request_error :: response where
  "invalid_request_error = Response 400 ''Invalid request format.'' []"

definition server_error :: response where
  "server_error = Response 500 ''Internal server error.'' []"

text \<open>
  The fields of the request body are strings when present. A field is missing when it
  is absent or the empty string (\<^verbatim>\<open>!x\<close>).
\<close>

fun field :: "string option \<Rightarrow> string option" where
  "field None = None"
| "field (Some s) = (if s = [] then None else Some s)"

definition signup ::
  "(string \<Rightarrow> string) \<Rightarrow> clock \<Rightarrow> string \<Rightarrow> signup_body \<Rightarrow> state \<Rightarrow> response \<times> state" where
  "signup hashSync now t body st =
     (case field (body_username body) of
        None \<Rightarrow> (invalid_request_error, st)
      | Some u \<Rightarrow>
     (case field (body_password body) of
        None \<Rightarrow> (invalid_request_error, st)
      | Some p \<Rightarrow>
     (case field (body_invite_code body) of
        None \<Rightarrow> (invalid_request_error, st)
      | Some c \<Rightarrow>
     (if \<not> is_alphanumeric u then
        (Response 400 ''Username must be alphanumeric with a maximum length of 32 characters.'' [], st)
      else if \<not> is_between_lengths u 1 32 then
        (Response 400 ''Username must be alphanumeric with a maximum length of 32 characters.'' [], st)
      else if check_username u st then (Response 400 ''Username already exists.'' [], st)
      else if \<not> check_invite_code c st then (Response 400 ''Invalid invite code.'' [], st)
      else
        (case create_user hashSync now u p c st of
           (Inl e, st1) \<Rightarrow> (server_error, st1)
         | (Inr x, st1) \<Rightarrow>
             (case create_session now t u st1 of
                (Inl e, st2) \<Rightarrow> (server_error, st2)
              | (Inr auth, st2) \<Rightarrow>
                  (Response 200 ''Signed up successfully.'' [(''auth_token'', auth)], st2)))))))"

section \<open>Vocabulary of the properties\<close>

text \<open>The tokens of the sessions table, and the users for whom a given token is stored.\<close>

definition session_tokens :: "state \<Rightarrow> string list" where
  "session_tokens st = (case st of None \<Rightarrow> [] | Some d \<Rightarrow> map auth_token (sessions d))"

definition token_users :: "string \<Rightarrow> state \<Rightarrow> string list" where
  "token_users t st =
     (case st of
        None \<Rightarrow> []
      | Some d \<Rightarrow> map session_username (filter (\<lambda>s. auth_token s = t) (sessions d)))"

text \<open>
  The validity of an invite code in the words of the specification: a record with that
  code exists whose expiration has not passed at the current time.
\<close>

definition is_valid_spec :: "clock \<Rightarrow> string \<Rightarrow> state \<Rightarrow> bool" where
  "is_valid_spec now c st =
     (case st of
        None \<Rightarrow> False
      | Some d \<Rightarrow>
          filter (\<lambda>i. invite_code i = c \<and> \<not> earlier (expiration i) (toISOString now))
            (invites d) \<noteq> [])"

text \<open>
  A timestamp text in SQLite's own rendering, the only one the statements of the source
  ever store.
\<close>

definition sqlite_text :: "timetext \<Rightarrow> bool" where
  "sqlite_text x = (t_sep x = CHR '' '' \<and> t_frac x = None)"

definition well_stamped :: "database \<Rightarrow> bool" where
  "well_stamped d =
     (list_all (\<lambda>s. sqlite_text (last_active s)) (sessions d) \<and>
      list_all (\<lambda>i. sqlite_text (expiration i)) (invites d) \<and>
      list_all (\<lambda>l. sqlite_text (timestamp l)) (logs d))"

text \<open>
  Sample data: a clock reading, and a database with three users, two sessions and one
  invite, issued on day 3 at 23:00:00 and so expiring on day 10 at 23:00:00.
\<close>

definition at :: "int \<Rightarrow> nat \<Rightarrow> nat \<Rightarrow> clock" where
  "at d s m = \<lparr>cdate = d, ctod = s, cms = m\<rparr>"

definition sample_db :: database where
  "sample_db =
     \<lparr>users = [\<lparr>username = ''admin'', password = ''DEFAULT PASSWORD HASH'', is_admin = True\<rparr>,
               \<lparr>username = ''alice'', password = ''h1'', is_admin = False\<rparr>,
               \<lparr>username = ''bob'', password = ''h2'', is_admin = False\<rparr>],
      sessions = [\<lparr>auth_token = ''t1'', session_username = ''alice'',
                   last_active = CURRENT_TIMESTAMP (at 5 100 0)\<rparr>,
                  \<lparr>auth_token = ''t2'', session_username = ''bob'',
                   last_active = CURRENT_TIMESTAMP (at 6 200 0)\<rparr>],
      invites = [\<lparr>invite_code = ''a1b2c3'',
                  expiration = DATETIME (CURRENT_TIMESTAMP (at 3 82800 0)) 7\<rparr>],
      logs = []\<rparr>"

section \<open>Basic facts\<close>

lemma execute_None: "execute q now None = (Inr (), None)"
  by (simp add: execute_def)

lemma execute_Some:
  "execute q now (Some d) =
     (case run q now d of Inl e \<Rightarrow> (Inl e, Some d) | Inr d' \<Rightarrow> (Inr (), Some d'))"
  by (simp add: execute_def)

lemma and_then_Inr: "and_then (Inr x, st) f = f x st"
  by (simp add: and_then_def)

lemma and_then_Inl: "and_then (Inl e, st) f = (Inl e, st)"
  by (simp add: and_then_def)

lemma log_Some:
  "log (Some m) now (Some d) =
     (Inr (), Some (d\<lparr>logs := logs d @ [\<lparr>message = m, timestamp = CURRENT_TIMESTAMP now\<rparr>]\<rparr>))"
  by (simp add: log_def execute_Some)

lemma log_no_db: "log m now None = (Inr (), None)"
  by (simp add: log_def execute_None split: option.splits)

lemma find_None_iff_map: "(find (\<lambda>r. f r = k) xs = None) = (k \<notin> f ` set xs)"
  by (induction xs) auto

lemma find_Some_key: "find (\<lambda>r. f r = k) xs = Some r \<Longrightarrow> f r = k \<and> r \<in> set xs"
  by (induction xs) (auto split: if_splits)

lemma check_username_Some: "check_username u (Some d) = (u \<in> set (map username (users d)))"
  by (simp add: check_username_def get_row_users_def find_None_iff_map)

text \<open>No statement stores a timestamp in another rendering than SQLite's.\<close>

lemma sqlite_text_CURRENT_TIMESTAMP: "sqlite_text (CURRENT_TIMESTAMP now)"
  by (simp add: sqlite_text_def CURRENT_TIMESTAMP_def)

lemma sqlite_text_DATETIME: "sqlite_text (DATETIME x n)"
  by (simp add: sqlite_text_def DATETIME_def)

lemma run_well_stamped:
  assumes "well_stamped d" and "run q now d = Inr d'"
  shows "well_stamped d'"
proof (cases q)
  case (UPDATE_sessions t)
  with assms show ?thesis
    by (auto simp: well_stamped_def list_all_iff touch_def sqlite_text_CURRENT_TIMESTAMP)
qed (use assms in \<open>auto simp: well_stamped_def list_all_iff sqlite_text_CURRENT_TIMESTAMP
      sqlite_text_DATETIME split: if_splits\<close>)

section \<open>Sessions\<close>

lemma check_session_absent:
  assumes "t \<notin> set (session_tokens st)"
  shows "check_session now t st = (Inr None, st)"
proof (cases st)
  case None
  then show ?thesis by (simp add: check_session_def get_row_sessions_def)
next
  case (Some d)
  with assms have "find (\<lambda>s. auth_token s = t) (sessions d) = None"
    by (simp add: session_tokens_def find_None_iff_map)
  with Some show ?thesis by (simp add: check_session_def get_row_sessions_def)
qed

lemma check_session_present:
  assumes "find (\<lambda>s. auth_token s = t) (sessions d) = Some r"
  shows "check_session now t (Some d) =
           (Inr (Some (session_username r)),
            Some (d\<lparr>sessions := map (touch now t) (sessions d)\<rparr>))"
  using assms by (simp add: check_session_def get_row_sessions_def execute_Some and_then_Inr)

text \<open>
  C6. \<^verbatim>\<open>check_session(t)\<close>: when the sessions table has a row with token \<open>t\<close>, the call
  returns the username of such a row (the first one) and writes the current timestamp
  into \<open>last_active\<close> of the rows with that token, every other row and table staying as
  it was; when there is no such row, it returns \<^verbatim>\<open>null\<close>.
\<close>

theorem check_session_validate:
  "(t \<in> set (session_tokens (Some d)) \<longrightarrow>
      (\<exists>r \<in> set (sessions d). auth_token r = t \<and>
         check_session now t (Some d) =
           (Inr (Some (session_username r)),
            Some (d\<lparr>sessions :=
                      map (\<lambda>s. if auth_token s = t
                                then s\<lparr>last_active := CURRENT_TIMESTAMP now\<rparr> else s)
                        (sessions d)\<rparr>)))) \<and>
   (t \<notin> set (session_tokens st) \<longrightarrow> check_session now t st = (Inr None, st))"
proof (intro conjI impI)
  assume "t \<in> set (session_tokens (Some d))"
  then have "find (\<lambda>s. auth_token s = t) (sessions d) \<noteq> None"
    by (simp add: session_tokens_def find_None_iff_map)
  then obtain r where r: "find (\<lambda>s. auth_token s = t) (sessions d) = Some r"
    by blast
  have same: "touch now t = (\<lambda>s. if auth_token s = t
                                then s\<lparr>last_active := CURRENT_TIMESTAMP now\<rparr> else s)"
    by (rule ext) (simp add: touch_def)
  from find_Some_key [OF r] check_session_present [OF r, of now]
  show "\<exists>r \<in> set (sessions d). auth_token r = t \<and>
         check_session now t (Some d) =
           (Inr (Some (session_username r)),
            Some (d\<lparr>sessions :=
                      map (\<lambda>s. if auth_token s = t
                                then s\<lparr>last_active := CURRENT_TIMESTAMP now\<rparr> else s)
                        (sessions d)\<rparr>))"
    unfolding same by blast
next
  assume "t \<notin> set (session_tokens st)"
  then show "check_session now t st = (Inr None, st)"
    by (rule check_session_absent)
qed

theorem check_session_validate_witness:
  "''t2'' \<in> set (session_tokens (Some sample_db)) \<and>
   ''zz'' \<notin> set (session_tokens (Some sample_db)) \<and>
   check_session (at 9 30 0) ''t2'' (Some sample_db) =
     (Inr (Some ''bob''),
      Some (sample_db\<lparr>sessions :=
         [\<lparr>auth_token = ''t1'', session_username = ''alice'',
            last_active = CURRENT_TIMESTAMP (at 5 100 0)\<rparr>,
          \<lparr>auth_token = ''t2'', session_username = ''bob'',
            last_active = CURRENT_TIMESTAMP (at 9 30 0)\<rparr>]\<rparr>)) \<and>
   check_session (at 9 30 0) ''zz'' (Some sample_db) = (Inr None, Some sample_db)"
  using check_session_validate [of "''t2''" sample_db "at 9 30 0", THEN conjunct1]
    check_session_validate [of "''zz''" sample_db "at 9 30 0" "Some sample_db", THEN conjunct2]
  by (auto simp: session_tokens_def sample_db_def)

text \<open>
  C9. When no row of the sessions table has token \<open>t\<close> (or no database is open),
  \<^verbatim>\<open>check_session(t)\<close> returns \<^verbatim>\<open>null\<close> and the state after the call is the state
  before it: no \<open>last_active\<close> is updated, no log entry is written, no table changes.
\<close>

theorem check_session_unknown_frame:
  "t \<notin> set (session_tokens st) \<Longrightarrow> check_session now t st = (Inr None, st)"
  by (rule check_session_absent)

theorem check_session_unknown_frame_witness:
  "''feedbeef'' \<notin> set (session_tokens (Some sample_db)) \<and>
   check_session (at 7 0 0) ''feedbeef'' (Some sample_db) = (Inr None, Some sample_db)"
  using check_session_unknown_frame [of "''feedbeef''" "Some sample_db" "at 7 0 0"]
  by (simp add: session_tokens_def sample_db_def)

lemma delete_session_row:
  assumes "find (\<lambda>s. auth_token s = t) (sessions d) = Some r"
  shows "delete_session now t (Some d) =
     (Inr (), Some (d\<lparr>sessions := filter (\<lambda>s. auth_token s \<noteq> t) (sessions d),
                     logs := logs d @
                       [\<lparr>message = ''Deleted session for '' @ quoted (session_username r) @ ''.'',
                         timestamp = CURRENT_TIMESTAMP now\<rparr>]\<rparr>))"
  using assms
  by (simp add: delete_session_def get_username_def get_row_sessions_def execute_Some
      and_then_Inr log_Some)

lemma delete_session_no_row:
  assumes "t \<notin> set (session_tokens st)"
  shows "delete_session now t st = (Inl TypeError, st)"
proof -
  from assms have "get_row_sessions t st = None"
    by (cases st) (simp_all add: get_row_sessions_def session_tokens_def find_None_iff_map)
  then show ?thesis by (simp add: delete_session_def get_username_def)
qed

text \<open>
  C5. \<^verbatim>\<open>delete_session\<close> on a token that no session row carries: \<^verbatim>\<open>get_username\<close>
  reads \<^verbatim>\<open>.username\<close> of the \<^verbatim>\<open>null\<close> that \<^verbatim>\<open>get_row\<close> returned, which throws a
  TypeError before anything is deleted or logged. The call does not complete normally.
\<close>

theorem delete_session_unknown_token:
  "delete_session (at 7 0 0) ''feedbeef'' (Some sample_db) = (Inl TypeError, Some sample_db)"
  by (simp add: delete_session_def get_username_def get_row_sessions_def sample_db_def)

section \<open>Users\<close>

lemma create_session_known:
  assumes "u \<in> set (map username (users d))"
  shows "create_session now t u (Some d) =
           (Inr t,
            Some (d\<lparr>sessions := sessions d @
                      [\<lparr>auth_token = t, session_username = u,
                        last_active = CURRENT_TIMESTAMP now\<rparr>],
                    logs := logs d @
                      [\<lparr>message = ''Created new session for '' @ quoted u @ ''.'',
                        timestamp = CURRENT_TIMESTAMP now\<rparr>]\<rparr>))"
  using assms by (simp add: create_session_def execute_Some and_then_Inr log_Some)

lemma delete_user_Some:
  "delete_user now u (Some d) =
     (Inr (), Some (d\<lparr>users := filter (\<lambda>r. username r \<noteq> u) (users d),
                     sessions := filter (\<lambda>s. session_username s \<noteq> u) (sessions d),
                     logs := logs d @ [\<lparr>message = ''Deleted user '' @ quoted u @ ''.'',
                                       timestamp = CURRENT_TIMESTAMP now\<rparr>]\<rparr>))"
  by (simp add: delete_user_def execute_Some and_then_Inr log_Some)

lemma delete_user_no_db: "delete_user now u None = (Inr (), None)"
  by (simp add: delete_user_def execute_None and_then_Inr log_no_db)

text \<open>
  C1, as stated, fails for a token that is stored for another user as well: the sessions
  table has no uniqueness constraint on \<^verbatim>\<open>auth_token\<close> and \<^verbatim>\<open>create_session\<close>
  inserts its draw unchecked. Here the draw for a session of bob is \<open>t1\<close>, a token
  already stored for alice; after \<^verbatim>\<open>delete_user\<close> of alice, \<^verbatim>\<open>check_session\<close> of
  \<open>t1\<close> is not a not-found: it answers bob.
\<close>

theorem delete_user_shared_token_counterexample:
  "create_session (at 6 300 0) ''t1'' ''bob'' (Some sample_db) =
     (Inr ''t1'',
      Some (sample_db\<lparr>sessions := sessions sample_db @
                [\<lparr>auth_token = ''t1'', session_username = ''bob'',
                  last_active = CURRENT_TIMESTAMP (at 6 300 0)\<rparr>],
              logs := [\<lparr>message = ''Created new session for '' @ quoted ''bob'' @ ''.'',
                        timestamp = CURRENT_TIMESTAMP (at 6 300 0)\<rparr>]\<rparr>)) \<and>
   token_users ''t1'' (snd (create_session (at 6 300 0) ''t1'' ''bob'' (Some sample_db))) =
     [''alice'', ''bob''] \<and>
   fst (check_session (at 8 0 0) ''t1''
          (snd (delete_user (at 7 0 0) ''alice''
             (snd (create_session (at 6 300 0) ''t1'' ''bob'' (Some sample_db)))))) =
     Inr (Some ''bob'')"
proof -
  have "''bob'' \<in> set (map username (users sample_db))"
    by (simp add: sample_db_def)
  from create_session_known [OF this, of "at 6 300 0" "''t1''"]
  have made: "create_session (at 6 300 0) ''t1'' ''bob'' (Some sample_db) =
     (Inr ''t1'',
      Some (sample_db\<lparr>sessions := sessions sample_db @
                [\<lparr>auth_token = ''t1'', session_username = ''bob'',
                  last_active = CURRENT_TIMESTAMP (at 6 300 0)\<rparr>],
              logs := [\<lparr>message = ''Created new session for '' @ quoted ''bob'' @ ''.'',
                        timestamp = CURRENT_TIMESTAMP (at 6 300 0)\<rparr>]\<rparr>))"
    by (simp add: sample_db_def)
  show ?thesis
    unfolding made
    by (simp add: token_users_def delete_user_Some check_session_def get_row_sessions_def
        execute_Some and_then_Inr sample_db_def)
qed

text \<open>
  C1, amended. \<^verbatim>\<open>delete_user(u)\<close> completes normally, and in the state it leaves:
  \<^verbatim>\<open>check_username(u)\<close> is false; no session row of \<open>u\<close> remains under any token \<open>t\<close>
  (the cascade), so \<^verbatim>\<open>check_session\<close> never answers \<open>u\<close>; and every token that was
  stored for \<open>u\<close> and for no other user is not found by \<^verbatim>\<open>check_session\<close>, which
  returns \<^verbatim>\<open>null\<close> and changes nothing.
\<close>

theorem delete_user_cascade:
  "fst (delete_user now u st) = Inr () \<and>
   check_username u (snd (delete_user now u st)) = False \<and>
   u \<notin> set (token_users t (snd (delete_user now u st))) \<and>
   fst (check_session now' t (snd (delete_user now u st))) \<noteq> Inr (Some u) \<and>
   (set (token_users t st) \<subseteq> {u} \<longrightarrow>
      check_session now' t (snd (delete_user now u st)) = (Inr None, snd (delete_user now u st)))"
proof (cases st)
  case None
  then show ?thesis
    by (simp add: delete_user_no_db check_username_def get_row_users_def token_users_def
        check_session_def get_row_sessions_def)
next
  case (Some d)
  let ?d' = "d\<lparr>users := filter (\<lambda>r. username r \<noteq> u) (users d),
               sessions := filter (\<lambda>s. session_username s \<noteq> u) (sessions d),
               logs := logs d @ [\<lparr>message = ''Deleted user '' @ quoted u @ ''.'',
                                 timestamp = CURRENT_TIMESTAMP now\<rparr>]\<rparr>"
  have run: "delete_user now u st = (Inr (), Some ?d')"
    using Some by (simp add: delete_user_Some)
  have gone: "check_username u (Some ?d') = False"
    by (auto simp: check_username_Some)
  have rows: "u \<notin> set (token_users t (Some ?d'))"
    by (auto simp: token_users_def)
  have res: "fst (check_session now' t (Some ?d')) \<noteq> Inr (Some u)"
  proof (cases "find (\<lambda>s. auth_token s = t) (sessions ?d')")
    case None
    then show ?thesis by (simp add: check_session_def get_row_sessions_def)
  next
    case (Some r)
    from find_Some_key [OF Some] have "session_username r \<noteq> u" by simp
    with Some show ?thesis by (simp add: check_session_present)
  qed
  have nf: "check_session now' t (Some ?d') = (Inr None, Some ?d')"
    if "set (token_users t st) \<subseteq> {u}"
  proof (rule check_session_absent)
    show "t \<notin> set (session_tokens (Some ?d'))"
      using that Some by (auto simp: session_tokens_def token_users_def)
  qed
  from run gone rows res nf show ?thesis by simp
qed

theorem delete_user_cascade_witness:
  "set (token_users ''t1'' (Some sample_db)) \<subseteq> {''alice''} \<and>
   token_users ''t1'' (Some sample_db) = [''alice''] \<and>
   check_session (at 8 0 0) ''t1'' (snd (delete_user (at 7 0 0) ''alice'' (Some sample_db))) =
     (Inr None, snd (delete_user (at 7 0 0) ''alice'' (Some sample_db)))"
  using delete_user_cascade [of "at 7 0 0" "''alice''" "Some sample_db" "''t1''" "at 8 0 0"]
  by (simp add: token_users_def sample_db_def)

lemma check_password_row:
  assumes "find (\<lambda>r. username r = u) (users d) = Some r"
  shows "check_password compareSync u p (Some d) = Inr (compareSync p (password r))"
  using assms by (simp add: check_password_def get_row_users_def)

lemma check_password_no_row:
  assumes "\<not> check_username u st"
  shows "check_password compareSync u p st = Inl TypeError"
  using assms by (simp add: check_password_def check_username_def)

text \<open>
  C2. \<^verbatim>\<open>check_password\<close> for a username that has no row: \<^verbatim>\<open>get_row\<close> returns
  \<^verbatim>\<open>null\<close> and reading \<^verbatim>\<open>user_info.password\<close> throws a TypeError, whatever bcrypt's
  \<^verbatim>\<open>compareSync\<close> would answer. The call does not return false.
\<close>

theorem check_password_unknown_user:
  "check_password compareSync ''ghost'' ''secret'' (Some sample_db) = Inl TypeError"
  by (simp add: check_password_def get_row_users_def sample_db_def)

section \<open>Invite codes and user creation\<close>

lemma check_invite_code_Some:
  "check_invite_code c (Some d) = (c \<in> set (map invite_code (invites d)))"
  by (simp add: check_invite_code_def get_row_invites_def find_None_iff_map)

lemma check_invite_code_no_db: "check_invite_code c None = False"
  by (simp add: check_invite_code_def get_row_invites_def)

lemma create_user_taken:
  assumes "u \<in> set (map username (users d))"
  shows "create_user hashSync now u p c (Some d) =
           (Inl SqliteError, Some (d\<lparr>invites := filter (\<lambda>i. invite_code i \<noteq> c) (invites d)\<rparr>))"
  using assms by (simp add: create_user_def execute_Some and_then_Inr and_then_Inl)

lemma create_user_fresh:
  assumes "u \<notin> set (map username (users d))"
  shows "create_user hashSync now u p c (Some d) =
           (Inr (),
            Some (d\<lparr>invites := filter (\<lambda>i. invite_code i \<noteq> c) (invites d),
                    users := users d @ [\<lparr>username = u, password = hashSync p, is_admin = False\<rparr>],
                    logs := logs d @
                      [\<lparr>message = ''Created new user '' @ quoted u @
                                    '', used invite code '' @ quoted c @ ''.'',
                        timestamp = CURRENT_TIMESTAMP now\<rparr>]\<rparr>))"
  using assms by (simp add: create_user_def execute_Some and_then_Inr log_Some)

text \<open>
  C10. \<^verbatim>\<open>create_user\<close> deletes the invite rows first and inserts the user row second,
  with no transaction around the two. When the username is already taken the insertion
  violates the primary key and throws: the call ends with that error, the invite rows of
  the code are gone all the same (the code is no longer valid), and nothing else is
  written. When the username is free, the invite rows are deleted, the user row is
  appended and the action is logged.
\<close>

theorem create_user_not_atomic:
  "(u \<in> set (map username (users d)) \<longrightarrow>
      create_user hashSync now u p c (Some d) =
        (Inl SqliteError, Some (d\<lparr>invites := filter (\<lambda>i. invite_code i \<noteq> c) (invites d)\<rparr>)) \<and>
      \<not> check_invite_code c (snd (create_user hashSync now u p c (Some d)))) \<and>
   (u \<notin> set (map username (users d)) \<longrightarrow>
      create_user hashSync now u p c (Some d) =
        (Inr (),
         Some (d\<lparr>invites := filter (\<lambda>i. invite_code i \<noteq> c) (invites d),
                 users := users d @ [\<lparr>username = u, password = hashSync p, is_admin = False\<rparr>],
                 logs := logs d @
                   [\<lparr>message = ''Created new user '' @ quoted u @
                                 '', used invite code '' @ quoted c @ ''.'',
                     timestamp = CURRENT_TIMESTAMP now\<rparr>]\<rparr>)))"
  by (auto simp: create_user_taken create_user_fresh check_invite_code_Some)

theorem create_user_not_atomic_witness:
  "''alice'' \<in> set (map username (users sample_db)) \<and>
   check_invite_code ''a1b2c3'' (Some sample_db) \<and>
   create_user (\<lambda>p. ''hash of '' @ p) (at 4 0 0) ''alice'' ''pw'' ''a1b2c3'' (Some sample_db) =
     (Inl SqliteError, Some (sample_db\<lparr>invites := []\<rparr>)) \<and>
   \<not> check_invite_code ''a1b2c3''
       (snd (create_user (\<lambda>p. ''hash of '' @ p) (at 4 0 0) ''alice'' ''pw'' ''a1b2c3''
          (Some sample_db)))"
  using create_user_not_atomic
    [of "''alice''" sample_db "\<lambda>p. ''hash of '' @ p" "at 4 0 0" "''pw''" "''a1b2c3''"]
  by (simp add: sample_db_def check_invite_code_Some)

section \<open>The audit log\<close>

text \<open>
  C8, as stated, fails on the empty string: the guard of \<^verbatim>\<open>log\<close> is
  \<^verbatim>\<open>message != null\<close>, which the empty string passes, so a record with an empty
  message is inserted into a table that had none.
\<close>

theorem log_empty_message_counterexample:
  "log (Some '''') (at 7 0 0) (Some create_tables) =
     (Inr (),
      Some (create_tables\<lparr>logs :=
              [\<lparr>message = '''', timestamp = CURRENT_TIMESTAMP (at 7 0 0)\<rparr>]\<rparr>)) \<and>
   logs create_tables = []"
  by (simp add: log_Some create_tables_def)

text \<open>
  C8, amended. For every string \<open>m\<close>, the empty one included, \<^verbatim>\<open>log(m)\<close> on an open
  database appends one record holding \<open>m\<close> and the current timestamp and changes nothing
  else; when the message is absent (\<^verbatim>\<open>null\<close> or \<^verbatim>\<open>undefined\<close>), or when no database
  is open, nothing is written.
\<close>

theorem log_appends:
  "log (Some m) now (Some d) =
     (Inr (), Some (d\<lparr>logs := logs d @ [\<lparr>message = m, timestamp = CURRENT_TIMESTAMP now\<rparr>]\<rparr>)) \<and>
   log None now st = (Inr (), st) \<and>
   log (Some m) now None = (Inr (), None)"
  by (simp add: log_Some log_no_db) (simp add: log_def)

section \<open>Housekeeping\<close>

lemma clean_database_Some:
  "clean_database now (Some d) =
     (Inr (),
      Some (d\<lparr>invites := filter (\<lambda>i. \<not> text_less (expiration i) (toISOString now)) (invites d),
              sessions := filter (\<lambda>s. \<not> text_less (last_active s)
                                        (DATETIME (toISOString now) (- 30))) (sessions d),
              logs := filter (\<lambda>l. \<not> text_less (timestamp l)
                                    (DATETIME (toISOString now) (- 30))) (logs d)\<rparr>))"
  by (simp add: clean_database_def execute_Some and_then_Inr Let_def)

lemma clean_database_no_db: "clean_database now None = (Inr (), None)"
  by (simp add: clean_database_def execute_None and_then_Inr Let_def)

text \<open>
  What the three comparisons of the sweep decide on stored texts: for invites, whether
  the date of the expiration is the current date or before it; for sessions and logs,
  whether the stored second lies before the current second of 30 days ago.
\<close>

lemma invite_swept_iff:
  assumes "sqlite_text x"
  shows "text_less x (toISOString now) = (t_date x \<le> cdate now)"
  using assms by (auto simp: sqlite_text_def text_less_def toISOString_def)

lemma stale_iff:
  assumes "sqlite_text x"
  shows "text_less x (DATETIME (toISOString now) (- 30)) =
           (t_date x < cdate now - 30 \<or> (t_date x = cdate now - 30 \<and> t_tod x < ctod now))"
  using assms by (auto simp: sqlite_text_def text_less_def toISOString_def DATETIME_def)

text \<open>
  C7. The sweep compares \<^verbatim>\<open>expiration\<close>, stored as \<^verbatim>\<open>YYYY-MM-DD HH:MM:SS\<close>, with
  the bare \<^verbatim>\<open>toISOString()\<close> text \<^verbatim>\<open>YYYY-MM-DDTHH:MM:SS.sssZ\<close>; the statements for
  sessions and logs pass that text through \<^verbatim>\<open>DATETIME(?, '-30 days')\<close> first, the one
  for invites does not. On the day of the expiration the two texts agree on the date and
  differ at the separator, a space against \<^verbatim>\<open>T\<close>, so the stored text is the smaller
  one whatever the times of day. Here the invite expires on day 10 at 23:00:00, the sweep
  runs on day 10 at 01:00:00, the expiration is not earlier than the current time (the
  current time is earlier than it), and the sweep deletes the invite; the two sessions,
  a few days old, stay.
\<close>

theorem clean_database_evicts_unexpired_invite:
  "\<not> earlier (DATETIME (CURRENT_TIMESTAMP (at 3 82800 0)) 7) (toISOString (at 10 3600 0)) \<and>
   earlier (toISOString (at 10 3600 0)) (DATETIME (CURRENT_TIMESTAMP (at 3 82800 0)) 7) \<and>
   clean_database (at 10 3600 0) (Some sample_db) = (Inr (), Some (sample_db\<lparr>invites := []\<rparr>))"
  by (simp add: clean_database_Some sample_db_def earlier_def text_less_def
      DATETIME_def CURRENT_TIMESTAMP_def toISOString_def at_def millis_def)

section \<open>Validity and redemption of invite codes\<close>

text \<open>
  C4, as stated, fails on an invite whose expiration has passed and which no sweep has
  removed yet: \<^verbatim>\<open>check_invite_code\<close> reads no clock and looks at no expiration. On
  day 10 at 23:30:00 the invite of the sample database, expired since 23:00:00, is
  still accepted, while the specification's validity is false.
\<close>

theorem check_invite_code_expired_counterexample:
  "earlier (DATETIME (CURRENT_TIMESTAMP (at 3 82800 0)) 7) (toISOString (at 10 84600 0)) \<and>
   check_invite_code ''a1b2c3'' (Some sample_db) \<and>
   \<not> is_valid_spec (at 10 84600 0) ''a1b2c3'' (Some sample_db)"
  by (simp add: check_invite_code_Some is_valid_spec_def sample_db_def earlier_def
      DATETIME_def CURRENT_TIMESTAMP_def toISOString_def at_def millis_def)

text \<open>
  C4, amended. \<^verbatim>\<open>check_invite_code(c)\<close> is true exactly when the invites table holds
  a row with code \<open>c\<close>, whatever its expiration; it is false when no database is open.
  Expired rows leave the table only through the housekeeping sweep.
\<close>

theorem check_invite_code_rows:
  "check_invite_code c (Some d) = (c \<in> set (map invite_code (invites d))) \<and>
   check_invite_code c None = False"
  by (simp add: check_invite_code_def get_row_invites_def find_None_iff_map)

lemma create_invite_code_Some:
  "create_invite_code now c (Some d) =
     (Inr c,
      Some (d\<lparr>invites := invites d @
                [\<lparr>invite_code = c, expiration = DATETIME (CURRENT_TIMESTAMP now) 7\<rparr>],
              logs := logs d @
                [\<lparr>message = ''Created new invite code '' @ quoted c @ ''.'',
                  timestamp = CURRENT_TIMESTAMP now\<rparr>]\<rparr>))"
  by (simp add: create_invite_code_def execute_Some and_then_Inr log_Some)

lemma signup_redeems:
  assumes code: "check_invite_code c st"
    and name: "is_alphanumeric u" "is_between_lengths u 1 32"
    and given: "p \<noteq> []" "c \<noteq> []"
    and free: "\<not> check_username u st"
  shows "fst (signup hashSync now t
            \<lparr>body_username = Some u, body_password = Some p, body_invite_code = Some c\<rparr> st) =
           Response 200 ''Signed up successfully.'' [(''auth_token'', t)] \<and>
         \<not> check_invite_code c (snd (signup hashSync now t
            \<lparr>body_username = Some u, body_password = Some p, body_invite_code = Some c\<rparr> st))"
proof -
  from code obtain d where st: "st = Some d"
    by (cases st) (simp_all add: check_invite_code_no_db)
  from name have u: "u \<noteq> []" by (simp add: is_alphanumeric_def)
  from free st have fresh: "u \<notin> set (map username (users d))"
    by (simp add: check_username_Some)
  let ?d1 = "d\<lparr>invites := filter (\<lambda>i. invite_code i \<noteq> c) (invites d),
                users := users d @ [\<lparr>username = u, password = hashSync p, is_admin = False\<rparr>],
                logs := logs d @
                  [\<lparr>message = ''Created new user '' @ quoted u @
                                '', used invite code '' @ quoted c @ ''.'',
                    timestamp = CURRENT_TIMESTAMP now\<rparr>]\<rparr>"
  have cu: "create_user hashSync now u p c st = (Inr (), Some ?d1)"
    using st create_user_fresh [OF fresh] by simp
  have "u \<in> set (map username (users ?d1))" by simp
  from create_session_known [OF this, of now t]
  obtain d2 where cs: "create_session now t u (Some ?d1) = (Inr t, Some d2)"
    and inv: "invites d2 = invites ?d1"
    by simp
  have "signup hashSync now t
          \<lparr>body_username = Some u, body_password = Some p, body_invite_code = Some c\<rparr> st =
        (Response 200 ''Signed up successfully.'' [(''auth_token'', t)], Some d2)"
    using code name given free u cu cs by (simp add: signup_def)
  moreover have "\<not> check_invite_code c (Some d2)"
    using inv by (auto simp: check_invite_code_Some)
  ultimately show ?thesis by simp
qed

lemma signup_rejects:
  assumes "\<not> check_invite_code c st" and "body_invite_code body = Some c"
  shows "\<exists>m. signup hashSync now t body st = (Response 400 m [], st)"
  using assms
  by (auto simp: signup_def invalid_request_error_def split: option.splits)

lemma earlier_text_less:
  assumes "sqlite_text x" and "earlier x (toISOString now)"
  shows "text_less x (toISOString now)"
  using assms
  by (auto simp: sqlite_text_def earlier_def text_less_def toISOString_def)

lemma sweep_removes_expired:
  assumes "\<forall>i \<in> set (invites d). invite_code i = c \<longrightarrow>
             sqlite_text (expiration i) \<and> earlier (expiration i) (toISOString now)"
  shows "\<not> check_invite_code c (snd (clean_database now (Some d)))"
  using assms
  by (auto simp: clean_database_Some check_invite_code_Some dest: earlier_text_less)

text \<open>
  C3, as stated, fails in its last part: the sign-up route asks only whether a row with
  the code exists. The invite of the sample database expired on day 10 at 23:00:00 and
  was never redeemed; no sweep has run since; a sign-up with it at 23:30:00 succeeds.
\<close>

theorem expired_invite_redeemed_counterexample:
  "invites sample_db =
     [\<lparr>invite_code = ''a1b2c3'', expiration = DATETIME (CURRENT_TIMESTAMP (at 3 82800 0)) 7\<rparr>] \<and>
   earlier (DATETIME (CURRENT_TIMESTAMP (at 3 82800 0)) 7) (CURRENT_TIMESTAMP (at 10 84600 0)) \<and>
   fst (signup (\<lambda>p. ''hash of '' @ p) (at 10 84600 0) ''t9''
          \<lparr>body_username = Some ''carol'', body_password = Some ''pw'',
            body_invite_code = Some ''a1b2c3''\<rparr> (Some sample_db)) =
     Response 200 ''Signed up successfully.'' [(''auth_token'', ''t9'')]"
proof -
  have "check_invite_code ''a1b2c3'' (Some sample_db)"
    by (simp add: check_invite_code_Some sample_db_def)
  moreover have "is_alphanumeric ''carol''" "is_between_lengths ''carol'' 1 32"
    by (simp_all add: is_alphanumeric_def is_between_lengths_def)
  moreover have "\<not> check_username ''carol'' (Some sample_db)"
    by (simp add: check_username_Some sample_db_def)
  ultimately have "fst (signup (\<lambda>p. ''hash of '' @ p) (at 10 84600 0) ''t9''
          \<lparr>body_username = Some ''carol'', body_password = Some ''pw'',
            body_invite_code = Some ''a1b2c3''\<rparr> (Some sample_db)) =
     Response 200 ''Signed up successfully.'' [(''auth_token'', ''t9'')]"
    using signup_redeems [of "''a1b2c3''" "Some sample_db" "''carol''" "''pw''"] by simp
  moreover have "earlier (DATETIME (CURRENT_TIMESTAMP (at 3 82800 0)) 7)
      (CURRENT_TIMESTAMP (at 10 84600 0))"
    by (simp add: earlier_def DATETIME_def CURRENT_TIMESTAMP_def at_def millis_def)
  ultimately show ?thesis by (simp add: sample_db_def)
qed

lemma sweep_after_issue:
  assumes fresh: "\<not> check_invite_code c (Some d)"
    and late: "earlier (DATETIME (CURRENT_TIMESTAMP issue) 7) (toISOString now')"
  shows "\<not> check_invite_code c
           (snd (clean_database now' (snd (create_invite_code issue c (Some d)))))"
proof -
  let ?d1 = "d\<lparr>invites := invites d @
                [\<lparr>invite_code = c, expiration = DATETIME (CURRENT_TIMESTAMP issue) 7\<rparr>],
              logs := logs d @
                [\<lparr>message = ''Created new invite code '' @ quoted c @ ''.'',
                  timestamp = CURRENT_TIMESTAMP issue\<rparr>]\<rparr>"
  have "\<forall>i \<in> set (invites ?d1). invite_code i = c \<longrightarrow>
          sqlite_text (expiration i) \<and> earlier (expiration i) (toISOString now')"
    using fresh late by (auto simp: check_invite_code_Some sqlite_text_DATETIME)
  then have "\<not> check_invite_code c (snd (clean_database now' (Some ?d1)))"
    by (rule sweep_removes_expired)
  then show ?thesis by (simp add: create_invite_code_Some)
qed

text \<open>
  C3, amended. On an open database:
  \<^item> \<^verbatim>\<open>create_invite_code\<close> appends one invite row with the code and, as expiration,
    the time of issue moved 7 days on, logs the issue, and the code is valid right after;
  \<^item> a sign-up with a valid, non-empty code, a well-formed username that is not taken
    and a non-empty password succeeds (status 200, with the session token) and leaves
    the code invalid;
  \<^item> a sign-up with a code that is not valid, so any second redemption of a redeemed
    code, is answered with status 400 and changes nothing;
  \<^item> when a code that was not in the table is issued and a housekeeping sweep runs on
    the state the issue left, at a time later than the 7-day expiration, the code is
    invalid after the sweep and a sign-up with it is answered with status 400 and changes
    nothing, though the code was never redeemed;
  \<^item> more generally, after a sweep of any state, run at a time that every stored
    expiration of the code (in SQLite's rendering) precedes, the code is invalid and a
    sign-up with it is answered with status 400 and changes nothing.
  The sign-up path itself reads no expiration: only the sweep enforces it.
\<close>

theorem invite_single_use:
  "create_invite_code issue c (Some d) =
     (Inr c,
      Some (d\<lparr>invites := invites d @
                [\<lparr>invite_code = c,
                  expiration = \<lparr>t_date = cdate issue + 7, t_sep = CHR '' '',
                                t_tod = ctod issue, t_frac = None\<rparr>\<rparr>],
              logs := logs d @
                [\<lparr>message = ''Created new invite code '' @ quoted c @ ''.'',
                  timestamp = CURRENT_TIMESTAMP issue\<rparr>]\<rparr>)) \<and>
   check_invite_code c (snd (create_invite_code issue c (Some d))) \<and>
   (check_invite_code c st \<and> is_alphanumeric u \<and> is_between_lengths u 1 32 \<and>
    p \<noteq> [] \<and> c \<noteq> [] \<and> \<not> check_username u st \<longrightarrow>
      fst (signup hashSync now t
             \<lparr>body_username = Some u, body_password = Some p, body_invite_code = Some c\<rparr> st) =
        Response 200 ''Signed up successfully.'' [(''auth_token'', t)] \<and>
      \<not> check_invite_code c (snd (signup hashSync now t
             \<lparr>body_username = Some u, body_password = Some p, body_invite_code = Some c\<rparr> st))) \<and>
   (\<not> check_invite_code c st \<and> body_invite_code body = Some c \<longrightarrow>
      (\<exists>m. signup hashSync now t body st = (Response 400 m [], st))) \<and>
   (\<not> check_invite_code c (Some d) \<and>
    earlier \<lparr>t_date = cdate issue + 7, t_sep = CHR '' '', t_tod = ctod issue, t_frac = None\<rparr>
      (toISOString now') \<and>
    body_invite_code body = Some c \<longrightarrow>
      \<not> check_invite_code c
          (snd (clean_database now' (snd (create_invite_code issue c (Some d))))) \<and>
      (\<exists>m. signup hashSync now t body
             (snd (clean_database now' (snd (create_invite_code issue c (Some d))))) =
           (Response 400 m [],
            snd (clean_database now' (snd (create_invite_code issue c (Some d))))))) \<and>
   ((\<forall>i \<in> set (invites d). invite_code i = c \<longrightarrow>
        sqlite_text (expiration i) \<and> earlier (expiration i) (toISOString now')) \<and>
    body_invite_code body = Some c \<longrightarrow>
      \<not> check_invite_code c (snd (clean_database now' (Some d))) \<and>
      (\<exists>m. signup hashSync now t body (snd (clean_database now' (Some d))) =
           (Response 400 m [], snd (clean_database now' (Some d)))))"
proof -
  have seven: "DATETIME (CURRENT_TIMESTAMP issue) 7 =
      \<lparr>t_date = cdate issue + 7, t_sep = CHR '' '', t_tod = ctod issue, t_frac = None\<rparr>"
    by (simp add: DATETIME_def CURRENT_TIMESTAMP_def)
  have issue: "create_invite_code issue c (Some d) =
     (Inr c,
      Some (d\<lparr>invites := invites d @
                [\<lparr>invite_code = c,
                  expiration = \<lparr>t_date = cdate issue + 7, t_sep = CHR '' '',
                                t_tod = ctod issue, t_frac = None\<rparr>\<rparr>],
              logs := logs d @
                [\<lparr>message = ''Created new invite code '' @ quoted c @ ''.'',
                  timestamp = CURRENT_TIMESTAMP issue\<rparr>]\<rparr>))"
    by (simp add: create_invite_code_Some seven)
  have valid: "check_invite_code c (snd (create_invite_code issue c (Some d)))"
    by (simp add: create_invite_code_Some check_invite_code_Some)
  have once: "fst (signup hashSync now t
             \<lparr>body_username = Some u, body_password = Some p, body_invite_code = Some c\<rparr> st) =
        Response 200 ''Signed up successfully.'' [(''auth_token'', t)] \<and>
      \<not> check_invite_code c (snd (signup hashSync now t
             \<lparr>body_username = Some u, body_password = Some p, body_invite_code = Some c\<rparr> st))"
    if "check_invite_code c st \<and> is_alphanumeric u \<and> is_between_lengths u 1 32 \<and>
        p \<noteq> [] \<and> c \<noteq> [] \<and> \<not> check_username u st"
    using that by (intro signup_redeems) simp_all
  have twice: "\<exists>m. signup hashSync now t body st = (Response 400 m [], st)"
    if "\<not> check_invite_code c st \<and> body_invite_code body = Some c"
    using that by (intro signup_rejects) simp_all
  have week: "\<not> check_invite_code c
          (snd (clean_database now' (snd (create_invite_code issue c (Some d))))) \<and>
      (\<exists>m. signup hashSync now t body
             (snd (clean_database now' (snd (create_invite_code issue c (Some d))))) =
           (Response 400 m [],
            snd (clean_database now' (snd (create_invite_code issue c (Some d))))))"
    if h: "\<not> check_invite_code c (Some d) \<and>
        earlier \<lparr>t_date = cdate issue + 7, t_sep = CHR '' '', t_tod = ctod issue, t_frac = None\<rparr>
          (toISOString now') \<and>
        body_invite_code body = Some c"
  proof -
    from h have "\<not> check_invite_code c
          (snd (clean_database now' (snd (create_invite_code issue c (Some d)))))"
      by (intro sweep_after_issue) (simp_all add: seven)
    with h show ?thesis by (simp add: signup_rejects)
  qed
  have swept: "\<not> check_invite_code c (snd (clean_database now' (Some d))) \<and>
      (\<exists>m. signup hashSync now t body (snd (clean_database now' (Some d))) =
           (Response 400 m [], snd (clean_database now' (Some d))))"
    if h: "(\<forall>i \<in> set (invites d). invite_code i = c \<longrightarrow>
        sqlite_text (expiration i) \<and> earlier (expiration i) (toISOString now')) \<and>
      body_invite_code body = Some c"
  proof -
    from h have "\<not> check_invite_code c (snd (clean_database now' (Some d)))"
      by (intro sweep_removes_expired) simp
    with h show ?thesis by (simp add: signup_rejects)
  qed
  from issue valid once twice week swept show ?thesis by blast
qed

theorem invite_single_use_witness:
  "check_invite_code ''a1b2c3'' (Some sample_db) \<and>
   is_alphanumeric ''carol'' \<and> is_between_lengths ''carol'' 1 32 \<and>
   \<not> check_username ''carol'' (Some sample_db) \<and>
   fst (signup (\<lambda>p. ''hash of '' @ p) (at 4 0 0) ''t9''
          \<lparr>body_username = Some ''carol'', body_password = Some ''pw'',
            body_invite_code = Some ''a1b2c3''\<rparr> (Some sample_db)) =
     Response 200 ''Signed up successfully.'' [(''auth_token'', ''t9'')] \<and>
   \<not> check_invite_code ''a1b2c3''
       (snd (signup (\<lambda>p. ''hash of '' @ p) (at 4 0 0) ''t9''
          \<lparr>body_username = Some ''carol'', body_password = Some ''pw'',
            body_invite_code = Some ''a1b2c3''\<rparr> (Some sample_db))) \<and>
   (\<exists>m. signup (\<lambda>p. ''hash of '' @ p) (at 4 60 0) ''t10''
          \<lparr>body_username = Some ''dave'', body_password = Some ''pw2'',
            body_invite_code = Some ''a1b2c3''\<rparr>
          (snd (signup (\<lambda>p. ''hash of '' @ p) (at 4 0 0) ''t9''
             \<lparr>body_username = Some ''carol'', body_password = Some ''pw'',
               body_invite_code = Some ''a1b2c3''\<rparr> (Some sample_db))) =
        (Response 400 m [],
         snd (signup (\<lambda>p. ''hash of '' @ p) (at 4 0 0) ''t9''
             \<lparr>body_username = Some ''carol'', body_password = Some ''pw'',
               body_invite_code = Some ''a1b2c3''\<rparr> (Some sample_db)))) \<and>
   \<not> check_invite_code ''c0ffee'' (Some sample_db) \<and>
   check_invite_code ''c0ffee'' (snd (create_invite_code (at 4 0 0) ''c0ffee'' (Some sample_db))) \<and>
   earlier \<lparr>t_date = cdate (at 4 0 0) + 7, t_sep = CHR '' '', t_tod = ctod (at 4 0 0),
            t_frac = None\<rparr> (toISOString (at 12 0 0)) \<and>
   \<not> check_invite_code ''c0ffee''
       (snd (clean_database (at 12 0 0)
          (snd (create_invite_code (at 4 0 0) ''c0ffee'' (Some sample_db))))) \<and>
   (\<exists>m. signup (\<lambda>p. ''hash of '' @ p) (at 12 60 0) ''t11''
          \<lparr>body_username = Some ''erin'', body_password = Some ''pw3'',
            body_invite_code = Some ''c0ffee''\<rparr>
          (snd (clean_database (at 12 0 0)
             (snd (create_invite_code (at 4 0 0) ''c0ffee'' (Some sample_db))))) =
        (Response 400 m [],
         snd (clean_database (at 12 0 0)
             (snd (create_invite_code (at 4 0 0) ''c0ffee'' (Some sample_db)))))) \<and>
   \<not> check_invite_code ''a1b2c3'' (snd (clean_database (at 11 0 0) (Some sample_db))) \<and>
   (\<exists>m. signup (\<lambda>p. ''hash of '' @ p) (at 11 60 0) ''t10''
          \<lparr>body_username = Some ''dave'', body_password = Some ''pw2'',
            body_invite_code = Some ''a1b2c3''\<rparr>
          (snd (clean_database (at 11 0 0) (Some sample_db))) =
        (Response 400 m [], snd (clean_database (at 11 0 0) (Some sample_db))))"
proof -
  let ?h = "\<lambda>p. ''hash of '' @ p"
  let ?carol = "\<lparr>body_username = Some ''carol'', body_password = Some ''pw'',
            body_invite_code = Some ''a1b2c3''\<rparr>"
  let ?dave = "\<lparr>body_username = Some ''dave'', body_password = Some ''pw2'',
            body_invite_code = Some ''a1b2c3''\<rparr>"
  let ?erin = "\<lparr>body_username = Some ''erin'', body_password = Some ''pw3'',
            body_invite_code = Some ''c0ffee''\<rparr>"
  have valid: "check_invite_code ''a1b2c3'' (Some sample_db)"
    by (simp add: check_invite_code_Some sample_db_def)
  have name: "is_alphanumeric ''carol'' \<and> is_between_lengths ''carol'' 1 32"
    by (simp add: is_alphanumeric_def is_between_lengths_def)
  have free: "\<not> check_username ''carol'' (Some sample_db)"
    by (simp add: check_username_Some sample_db_def)
  have first: "fst (signup ?h (at 4 0 0) ''t9'' ?carol (Some sample_db)) =
      Response 200 ''Signed up successfully.'' [(''auth_token'', ''t9'')] \<and>
    \<not> check_invite_code ''a1b2c3'' (snd (signup ?h (at 4 0 0) ''t9'' ?carol (Some sample_db)))"
    using invite_single_use [where c = "''a1b2c3''" and st = "Some sample_db" and u = "''carol''"
        and p = "''pw''" and hashSync = ?h and now = "at 4 0 0" and t = "''t9''",
        THEN conjunct2, THEN conjunct2, THEN conjunct1]
      valid name free
    by simp
  then have used: "\<not> check_invite_code ''a1b2c3''
      (snd (signup ?h (at 4 0 0) ''t9'' ?carol (Some sample_db)))"
    by simp
  have second: "\<exists>m. signup ?h (at 4 60 0) ''t10'' ?dave
        (snd (signup ?h (at 4 0 0) ''t9'' ?carol (Some sample_db))) =
      (Response 400 m [], snd (signup ?h (at 4 0 0) ''t9'' ?carol (Some sample_db)))"
    using invite_single_use [where c = "''a1b2c3''"
        and st = "snd (signup ?h (at 4 0 0) ''t9'' ?carol (Some sample_db))"
        and body = ?dave and hashSync = ?h and now = "at 4 60 0" and t = "''t10''",
        THEN conjunct2, THEN conjunct2, THEN conjunct2, THEN conjunct1]
      used
    by simp
  have unknown: "\<not> check_invite_code ''c0ffee'' (Some sample_db)"
    by (simp add: check_invite_code_Some sample_db_def)
  have issued: "check_invite_code ''c0ffee''
      (snd (create_invite_code (at 4 0 0) ''c0ffee'' (Some sample_db)))"
    using invite_single_use [where c = "''c0ffee''" and issue = "at 4 0 0" and d = sample_db,
        THEN conjunct2, THEN conjunct1]
    by simp
  have late: "earlier \<lparr>t_date = cdate (at 4 0 0) + 7, t_sep = CHR '' '', t_tod = ctod (at 4 0 0),
            t_frac = None\<rparr> (toISOString (at 12 0 0))"
    by (simp add: earlier_def toISOString_def at_def millis_def)
  have week: "\<not> check_invite_code ''c0ffee''
       (snd (clean_database (at 12 0 0)
          (snd (create_invite_code (at 4 0 0) ''c0ffee'' (Some sample_db))))) \<and>
   (\<exists>m. signup ?h (at 12 60 0) ''t11'' ?erin
          (snd (clean_database (at 12 0 0)
             (snd (create_invite_code (at 4 0 0) ''c0ffee'' (Some sample_db))))) =
        (Response 400 m [],
         snd (clean_database (at 12 0 0)
             (snd (create_invite_code (at 4 0 0) ''c0ffee'' (Some sample_db))))))"
    using invite_single_use [where c = "''c0ffee''" and issue = "at 4 0 0" and d = sample_db
        and now' = "at 12 0 0" and body = ?erin and hashSync = ?h and now = "at 12 60 0"
        and t = "''t11''",
        THEN conjunct2, THEN conjunct2, THEN conjunct2, THEN conjunct2, THEN conjunct1]
      unknown late
    by simp
  have expired: "\<forall>i \<in> set (invites sample_db). invite_code i = ''a1b2c3'' \<longrightarrow>
      sqlite_text (expiration i) \<and> earlier (expiration i) (toISOString (at 11 0 0))"
    by (simp add: sample_db_def sqlite_text_def earlier_def DATETIME_def CURRENT_TIMESTAMP_def
        toISOString_def at_def millis_def)
  have swept: "\<not> check_invite_code ''a1b2c3'' (snd (clean_database (at 11 0 0) (Some sample_db))) \<and>
   (\<exists>m. signup ?h (at 11 60 0) ''t10'' ?dave (snd (clean_database (at 11 0 0) (Some sample_db))) =
        (Response 400 m [], snd (clean_database (at 11 0 0) (Some sample_db))))"
    using invite_single_use [where c = "''a1b2c3''" and d = sample_db and now' = "at 11 0 0"
        and body = ?dave and hashSync = ?h and now = "at 11 60 0" and t = "''t10''",
        THEN conjunct2, THEN conjunct2, THEN conjunct2, THEN conjunct2, THEN conjunct2]
      expired
    by simp
  from valid name free first second unknown issued late week swept show ?thesis by simp
qed

end
